theory Spec2Isabelle
  imports Main
begin

section \<open>Strings as byte sequences\<close>

text \<open>
  A Go string is a sequence of bytes; \<^typ>\<open>string\<close> (a list of 8-bit characters) is
  used for it. Byte arithmetic wraps modulo 256, as Go's \<^verbatim>\<open>byte\<close> does.
\<close>

definition byte :: "char \<Rightarrow> nat" where
  "byte c = of_char c"

definition byte_add :: "char \<Rightarrow> nat \<Rightarrow> char" where
  "byte_add c n = char_of ((byte c + n) mod 256)"

definition byte_sub :: "char \<Rightarrow> nat \<Rightarrow> char" where
  "byte_sub c n = char_of ((byte c + 256 - n mod 256) mod 256)"

text \<open>The ranges \<^verbatim>\<open>'a'..'z'\<close> and \<^verbatim>\<open>'A'..'Z'\<close> the source compares bytes against.\<close>

definition is_lower_az :: "char \<Rightarrow> bool" where
  "is_lower_az c = (byte CHR ''a'' \<le> byte c \<and> byte c \<le> byte CHR ''z'')"

definition is_upper_AZ :: "char \<Rightarrow> bool" where
  "is_upper_AZ c = (byte CHR ''A'' \<le> byte c \<and> byte c \<le> byte CHR ''Z'')"

subsection \<open>The parts of Go's \<^verbatim>\<open>strings\<close> package the program calls\<close>

text \<open>
  \<^verbatim>\<open>strings.ToLower\<close>: on a string of ASCII bytes only, every byte of \<^verbatim>\<open>'A'..'Z'\<close>
  is moved to \<^verbatim>\<open>'a'..'z'\<close>. On any other string the library maps
  \<^verbatim>\<open>unicode.ToLower\<close> over the runes; that mapping (a table of the Unicode standard)
  is the parameter \<open>unicodeLower\<close>, and every theorem below holds for each choice of it.
\<close>

definition ascii_lower :: "char \<Rightarrow> char" where
  "ascii_lower c = (if is_upper_AZ c then byte_add c 32 else c)"

definition ToLower :: "(string \<Rightarrow> string) \<Rightarrow> string \<Rightarrow> string" where
  "ToLower unicodeLower s =
     (if list_all (\<lambda>c. byte c < 128) s then map ascii_lower s else unicodeLower s)"

section \<open>Identifier transformer\<close>

text \<open>
  \<^verbatim>\<open>Pascal\<close>: the loop over \<^verbatim>\<open>str[i]\<close>, with the flag \<^verbatim>\<open>next2upper\<close> and the
  output buffer \<^verbatim>\<open>tmp\<close>. The first argument is the rest of \<^verbatim>\<open>str\<close> from index
  \<^verbatim>\<open>i\<close> on.
\<close>

fun Pascal_loop :: "string \<Rightarrow> bool \<Rightarrow> string \<Rightarrow> string" where
  "Pascal_loop [] next2upper tmp = tmp"
| "Pascal_loop (c # cs) next2upper tmp =
     (if c = CHR ''_'' then Pascal_loop cs True tmp
      else if next2upper \<and> is_lower_az c then Pascal_loop cs False (tmp @ [byte_sub c 32])
      else Pascal_loop cs False (tmp @ [c]))"

definition Pascal :: "string \<Rightarrow> string" where
  "Pascal str = (if str = [] then [] else Pascal_loop str True [])"

text \<open>
  \<^verbatim>\<open>Camel\<close> slices \<^verbatim>\<open>str[0:1]\<close> of the Pascal form. When that form is empty (the input
  has underscores only) the slice is out of range and the program panics: \<open>None\<close>.
\<close>

definition Camel :: "(string \<Rightarrow> string) \<Rightarrow> string \<Rightarrow> string option" where
  "Camel unicodeLower str =
     (if str = [] then Some []
      else (case Pascal str of
              [] \<Rightarrow> None
            | c # cs \<Rightarrow> Some (ToLower unicodeLower [c] @ cs)))"

text \<open>
  \<^verbatim>\<open>Underline\<close>: the loop over \<^verbatim>\<open>str[i]\<close>; the second argument is the index
  \<^verbatim>\<open>i\<close>, the third the buffer \<^verbatim>\<open>tmp\<close>.
\<close>

fun Underline_loop :: "string \<Rightarrow> nat \<Rightarrow> string \<Rightarrow> string" where
  "Underline_loop [] i tmp = tmp"
| "Underline_loop (c # cs) i tmp =
     (if is_upper_AZ c
      then Underline_loop cs (i + 1)
             ((if 0 < i then tmp @ [CHR ''_''] else tmp) @ [byte_add c 32])
      else Underline_loop cs (i + 1) (tmp @ [c]))"

definition Underline :: "string \<Rightarrow> string" where
  "Underline str = (if str = [] then [] else Underline_loop str 0 [])"

section \<open>Data model\<close>

text \<open>
  The structs of \<^verbatim>\<open>schema.go\<close>. A Go pointer field (\<^verbatim>\<open>*string\<close>, \<^verbatim>\<open>*int\<close>) is an
  option, \<open>None\<close> for \<^verbatim>\<open>nil\<close>. The unexported back-reference \<^verbatim>\<open>table *Table\<close> of a
  column is never assigned or read by the program and is left out. Fields of the two
  records that share a name are written qualified (\<open>Column.Comment\<close>, \<open>Table.Comment\<close>).
\<close>

record Column =
  Database :: string
  Table :: string
  Column :: string
  Comment :: string
  Type :: "string option"
  DataType :: "string option"
  ColumnDefault :: "string option"
  IsNullable :: "string option"
  OrdinalPosition :: "int option"
  CharacterMaximumLength :: "int option"
  CharacterOctetLength :: "int option"
  NumericPrecision :: "int option"
  NumericScale :: "int option"
  CharacterSetName :: "string option"
  CollationName :: "string option"
  ColumnKey :: "string option"
  Extra :: "string option"
  ColumnCamel :: string
  ColumnPascal :: string
  ColumnUnderline :: string
  GoType :: string

record Table =
  Database :: string
  Table :: string
  Comment :: string
  Columns :: "Column list"
  Defined :: string
  AutoIncrementColumn :: string
  TableGoTypeName :: string
  TableGoTypeNameTimestamp :: string

text \<open>The zero value of the struct, \<^verbatim>\<open>&Column{}\<close>.\<close>

definition Column_zero :: Column where
  "Column_zero =
     \<lparr>Column.Database = [], Column.Table = [], Column = [], Column.Comment = [],
      Type = None, DataType = None, ColumnDefault = None, IsNullable = None,
      OrdinalPosition = None, CharacterMaximumLength = None, CharacterOctetLength = None,
      NumericPrecision = None, NumericScale = None, CharacterSetName = None,
      CollationName = None, ColumnKey = None, Extra = None,
      ColumnCamel = [], ColumnPascal = [], ColumnUnderline = [], GoType = []\<rparr>"

text \<open>The zero value \<^verbatim>\<open>&Table{}\<close>.\<close>

definition Table_zero :: Table where
  "Table_zero =
     \<lparr>Table.Database = [], Table.Table = [], Table.Comment = [], Table.Columns = [],
      Defined = [], AutoIncrementColumn = [], TableGoTypeName = [],
      TableGoTypeNameTimestamp = []\<rparr>"

section \<open>Type mapper\<close>

text \<open>The three blocks of \<^verbatim>\<open>Column.goType\<close>, in the order of the source.\<close>

definition goType_nullable :: "(string \<Rightarrow> string) \<Rightarrow> Column \<Rightarrow> bool" where
  "goType_nullable unicodeLower s =
     (case IsNullable s of
        None \<Rightarrow> True
      | Some v \<Rightarrow> (if ToLower unicodeLower v = ''no'' then False else True))"

definition goType_datatype :: "(string \<Rightarrow> string) \<Rightarrow> Column \<Rightarrow> string" where
  "goType_datatype unicodeLower s =
     (let datatype0 = (case DataType s of None \<Rightarrow> [] | Some v \<Rightarrow> ToLower unicodeLower v)
      in case Type s of
           None \<Rightarrow> datatype0
         | Some t \<Rightarrow> (if datatype0 = [] \<and> t \<noteq> [] then ToLower unicodeLower t else datatype0))"

definition goType_switch :: "string \<Rightarrow> string" where
  "goType_switch datatype0 =
     (if datatype0 = ''tinyint'' then ''int8''
      else if datatype0 \<in> set [''smallint'', ''smallserial''] then ''int16''
      else if datatype0 \<in> set [''integer'', ''serial'', ''int''] then ''int''
      else if datatype0 \<in> set [''bigint'', ''bigserial''] then ''int64''
      else if datatype0 \<in> set [''decimal'', ''numeric'', ''real'', ''double precision'',
                                ''double'', ''float'']
        then ''float64''
      else if datatype0 \<in> set [''char'', ''character'', ''character varying'', ''text'',
                                ''varchar'', ''enum'', ''mediumtext'', ''longtext'']
        then ''string''
      else if datatype0 \<in> set [''bool'', ''boolean''] then ''bool''
      else if datatype0 \<in> set [''binary'', ''varbinary'', ''tinyblob'', ''mediumblob'',
                                ''longblob'', ''blob'', ''bytea'']
        then ''[]byte''
      else ''string'')"

definition goType :: "(string \<Rightarrow> string) \<Rightarrow> Column \<Rightarrow> string" where
  "goType unicodeLower s =
     (let nullable = goType_nullable unicodeLower s;
          result = goType_switch (goType_datatype unicodeLower s)
      in if nullable then (if result \<noteq> ''[]byte'' then ''*'' @ result else result)
         else result)"

text \<open>The keywords the switch of \<^verbatim>\<open>goType\<close> names, and the types it can produce.\<close>

definition recognized_keywords :: "string list" where
  "recognized_keywords =
     [''tinyint'', ''smallint'', ''smallserial'', ''integer'', ''serial'', ''int'', ''bigint'',
      ''bigserial'', ''decimal'', ''numeric'', ''real'', ''double precision'', ''double'',
      ''float'', ''char'', ''character'', ''character varying'', ''text'', ''varchar'',
      ''enum'', ''mediumtext'', ''longtext'', ''bool'', ''boolean'', ''binary'', ''varbinary'',
      ''tinyblob'', ''mediumblob'', ''longblob'', ''blob'', ''bytea'']"

definition semantic_types :: "string list" where
  "semantic_types =
     [''int8'', ''int16'', ''int'', ''int64'', ''float64'', ''string'', ''bool'', ''[]byte'']"

section \<open>More of the \<^verbatim>\<open>strings\<close> package\<close>

definition HasPrefix :: "string \<Rightarrow> string \<Rightarrow> bool" where
  "HasPrefix s p = (take (length p) s = p)"

definition HasSuffix :: "string \<Rightarrow> string \<Rightarrow> bool" where
  "HasSuffix s p = (length p \<le> length s \<and> drop (length s - length p) s = p)"

text \<open>
  \<^verbatim>\<open>strings.TrimSpace\<close> removes the leading and the trailing white space, as
  \<^verbatim>\<open>unicode.IsSpace\<close> defines it: six ASCII bytes, and the runes U+0085, U+00A0, U+1680,
  U+2000 to U+200A, U+2028, U+2029, U+202F, U+205F and U+3000, here in their UTF-8
  encodings of two and three bytes.
\<close>

definition asciiSpace :: "char \<Rightarrow> bool" where
  "asciiSpace c = (c \<in> set [CHR 0x09, CHR 0x0A, CHR 0x0B, CHR 0x0C, CHR 0x0D, CHR 0x20])"

definition space2 :: "(char \<times> char) list" where
  "space2 = [(CHR 0xC2, CHR 0x85), (CHR 0xC2, CHR 0xA0)]"

definition space3 :: "(char \<times> char \<times> char) list" where
  "space3 =
     [(CHR 0xE1, CHR 0x9A, CHR 0x80),
      (CHR 0xE2, CHR 0x80, CHR 0x80), (CHR 0xE2, CHR 0x80, CHR 0x81),
      (CHR 0xE2, CHR 0x80, CHR 0x82), (CHR 0xE2, CHR 0x80, CHR 0x83),
      (CHR 0xE2, CHR 0x80, CHR 0x84), (CHR 0xE2, CHR 0x80, CHR 0x85),
      (CHR 0xE2, CHR 0x80, CHR 0x86), (CHR 0xE2, CHR 0x80, CHR 0x87),
      (CHR 0xE2, CHR 0x80, CHR 0x88), (CHR 0xE2, CHR 0x80, CHR 0x89),
      (CHR 0xE2, CHR 0x80, CHR 0x8A), (CHR 0xE2, CHR 0x80, CHR 0xA8),
      (CHR 0xE2, CHR 0x80, CHR 0xA9), (CHR 0xE2, CHR 0x80, CHR 0xAF),
      (CHR 0xE2, CHR 0x81, CHR 0x9F), (CHR 0xE3, CHR 0x80, CHR 0x80)]"

text \<open>
  \<^verbatim>\<open>TrimLeftFunc(s, unicode.IsSpace)\<close>: runes are taken from the front while they are
  white space.
\<close>

fun TrimLeftSpace :: "string \<Rightarrow> string" where
  "TrimLeftSpace (a # b # c # s) =
     (if asciiSpace a then TrimLeftSpace (b # c # s)
      else if (a, b) \<in> set space2 then TrimLeftSpace (c # s)
      else if (a, b, c) \<in> set space3 then TrimLeftSpace s
      else a # b # c # s)"
| "TrimLeftSpace [a, b] =
     (if asciiSpace a then TrimLeftSpace [b]
      else if (a, b) \<in> set space2 then []
      else [a, b])"
| "TrimLeftSpace [a] = (if asciiSpace a then [] else [a])"
| "TrimLeftSpace [] = []"

text \<open>
  \<^verbatim>\<open>TrimRightFunc(s, unicode.IsSpace)\<close>: the same from the end; the argument is the
  string reversed, so the bytes of an encoding come last byte first.
\<close>

fun TrimRightSpace_rev :: "string \<Rightarrow> string" where
  "TrimRightSpace_rev (c # b # a # s) =
     (if asciiSpace c then TrimRightSpace_rev (b # a # s)
      else if (b, c) \<in> set space2 then TrimRightSpace_rev (a # s)
      else if (a, b, c) \<in> set space3 then TrimRightSpace_rev s
      else c # b # a # s)"
| "TrimRightSpace_rev [c, b] =
     (if asciiSpace c then TrimRightSpace_rev [b]
      else if (b, c) \<in> set space2 then []
      else [c, b])"
| "TrimRightSpace_rev [c] = (if asciiSpace c then [] else [c])"
| "TrimRightSpace_rev [] = []"

definition TrimSpace :: "string \<Rightarrow> string" where
  "TrimSpace s = rev (TrimRightSpace_rev (rev (TrimLeftSpace s)))"

section \<open>Configuration\<close>

text \<open>
  A compiled \<^verbatim>\<open>*regexp.Regexp\<close> is used by the program through \<^verbatim>\<open>MatchString\<close> only, so
  it is modelled by the set of strings it matches. \<^verbatim>\<open>regexp.MustCompile\<close> belongs to Go's
  library; it is a parameter \<open>MustCompile\<close> of the model, \<open>None\<close> where it panics.
\<close>

datatype Regexp = Regexp (MatchString: "string \<Rightarrow> bool")

record ConfigDatabase =
  Driver :: string
  Username :: string
  Password :: string
  Host :: string
  Port :: nat
  Database :: string
  DataSourceName :: string
  DatabaseSchemaName :: string
  TablePrefix :: string

text \<open>An entry of \<^verbatim>\<open>Comments\<close>; a map read from YAML is an association list.\<close>

record ConfigComment =
  Comment :: string
  Columns :: "(string \<times> string) list"

text \<open>
  \<^verbatim>\<open>DisableTableMap\<close> is a \<^verbatim>\<open>map[string]*struct{}\<close> whose values are all \<^verbatim>\<open>nil\<close>: the set
  of its keys, and \<open>None\<close> while the map itself is \<^verbatim>\<open>nil\<close>.
\<close>

record Config =
  Database :: ConfigDatabase
  DisableTable :: "string list"
  DisableTableMap :: "string set option"
  DisableTableRegexp :: "Regexp list"
  Comments :: "(string \<times> ConfigComment) list"
  TemplateFileCustom :: string
  TemplateFileReplace :: string
  TemplateFileSchema :: string
  TemplateFileTable :: string
  OnlyTable :: "string list"

text \<open>The zero value \<^verbatim>\<open>&Config{}\<close>, which the YAML decoder fills.\<close>

definition Config_zero :: Config where
  "Config_zero =
     \<lparr>Config.Database =
        \<lparr>Driver = [], Username = [], Password = [], Host = [], Port = 0,
         ConfigDatabase.Database = [], DataSourceName = [], DatabaseSchemaName = [],
         TablePrefix = []\<rparr>,
      DisableTable = [], DisableTableMap = None, DisableTableRegexp = [], Comments = [],
      TemplateFileCustom = [], TemplateFileReplace = [], TemplateFileSchema = [],
      TemplateFileTable = [], OnlyTable = []\<rparr>"

text \<open>
  \<^verbatim>\<open>initConfigDisableTable\<close>: the loop over \<^verbatim>\<open>cfg.DisableTable\<close>. An entry between
  \<^verbatim>\<open>^\<close> and \<^verbatim>\<open>$\<close> is compiled and appended to \<^verbatim>\<open>DisableTableRegexp\<close>; every other entry
  becomes a key of \<^verbatim>\<open>DisableTableMap\<close>, which is made on first use.
\<close>

fun initConfigDisableTable_loop ::
  "(string \<Rightarrow> Regexp option) \<Rightarrow> string list \<Rightarrow> Config \<Rightarrow> Config option" where
  "initConfigDisableTable_loop MustCompile [] cfg = Some cfg"
| "initConfigDisableTable_loop MustCompile (v0 # vs) cfg =
     (let v = TrimSpace v0 in
      if HasPrefix v ''^'' \<and> HasSuffix v ''$''
      then (case MustCompile v of
              None \<Rightarrow> None
            | Some re \<Rightarrow>
                initConfigDisableTable_loop MustCompile vs
                  (cfg\<lparr>DisableTableRegexp := DisableTableRegexp cfg @ [re]\<rparr>))
      else initConfigDisableTable_loop MustCompile vs
             (cfg\<lparr>DisableTableMap :=
                    Some (insert v (case DisableTableMap cfg of None \<Rightarrow> {} | Some m \<Rightarrow> m))\<rparr>))"

definition initConfigDisableTable ::
  "(string \<Rightarrow> Regexp option) \<Rightarrow> Config \<Rightarrow> Config option" where
  "initConfigDisableTable MustCompile cfg =
     initConfigDisableTable_loop MustCompile (DisableTable cfg) cfg"

text \<open>
  \<^verbatim>\<open>isTableDisabled\<close>: when \<^verbatim>\<open>DisableTableMap\<close> is not \<^verbatim>\<open>nil\<close> the function returns
  whether the name is a key; the loop over the patterns is reached only when the map is
  \<^verbatim>\<open>nil\<close>.
\<close>

fun isTableDisabled_loop :: "Regexp list \<Rightarrow> string \<Rightarrow> bool" where
  "isTableDisabled_loop [] table = False"
| "isTableDisabled_loop (disable # rest) table =
     (if MatchString disable table then True else isTableDisabled_loop rest table)"

definition isTableDisabled :: "Config \<Rightarrow> string \<Rightarrow> bool" where
  "isTableDisabled cfg table =
     (case DisableTableMap cfg of
        Some m \<Rightarrow> table \<in> m
      | None \<Rightarrow> isTableDisabled_loop (DisableTableRegexp cfg) table)"

section \<open>Schema aggregator: the table filter\<close>

text \<open>
  The first loop of the filter in \<^verbatim>\<open>GetAllTables\<close> builds \<^verbatim>\<open>onlyTableMap\<close> (again a map
  with \<^verbatim>\<open>nil\<close> values only: the set of its keys) from the trimmed entries of
  \<^verbatim>\<open>OnlyTable\<close> that are not empty.
\<close>

fun onlyTableMap_loop :: "string list \<Rightarrow> string set \<Rightarrow> string set" where
  "onlyTableMap_loop [] onlyTableMap = onlyTableMap"
| "onlyTableMap_loop (t0 # ts) onlyTableMap =
     (let t = TrimSpace t0 in
      if t \<noteq> [] then onlyTableMap_loop ts (insert t onlyTableMap)
      else onlyTableMap_loop ts onlyTableMap)"

text \<open>
  The second loop goes through the listed tables; \<^verbatim>\<open>tables\<close> collects the ones kept.
  With \<^verbatim>\<open>onlyTable\<close> set, the branch ends in \<^verbatim>\<open>continue\<close> before \<^verbatim>\<open>isTableDisabled\<close>
  is called.
\<close>

fun GetAllTables_loop ::
  "Config \<Rightarrow> string set \<Rightarrow> bool \<Rightarrow> Table list \<Rightarrow> Table list \<Rightarrow> Table list" where
  "GetAllTables_loop config onlyTableMap onlyTable [] tables = tables"
| "GetAllTables_loop config onlyTableMap onlyTable (t # listed) tables =
     (if onlyTable
      then (if Table.Table t \<in> onlyTableMap
            then GetAllTables_loop config onlyTableMap onlyTable listed (tables @ [t])
            else GetAllTables_loop config onlyTableMap onlyTable listed tables)
      else if isTableDisabled config (Table.Table t)
      then GetAllTables_loop config onlyTableMap onlyTable listed tables
      else GetAllTables_loop config onlyTableMap onlyTable listed (tables @ [t]))"

definition GetAllTables_filter :: "Config \<Rightarrow> Table list \<Rightarrow> Table list" where
  "GetAllTables_filter config listed =
     (let onlyTableMap = onlyTableMap_loop (OnlyTable config) {};
          onlyTable = (onlyTableMap \<noteq> {})
      in GetAllTables_loop config onlyTableMap onlyTable listed [])"

section \<open>A fragment of the regular-expression library, for the examples\<close>

text \<open>
  The patterns of the examples are made of \<^verbatim>\<open>^\<close>, \<^verbatim>\<open>$\<close>, \<^verbatim>\<open>.\<close>, ASCII characters that
  stand for themselves, and \<^verbatim>\<open>*\<close> after \<^verbatim>\<open>.\<close> or a character. On such a pattern and an
  ASCII subject \<open>exampleMustCompile\<close> matches what Go's \<^verbatim>\<open>regexp\<close> matches (a match
  anywhere in the subject; \<^verbatim>\<open>.\<close> is any character but the newline; \<^verbatim>\<open>^\<close> and \<^verbatim>\<open>$\<close>
  hold at the two ends of the subject only). A pattern outside the fragment gives
  \<open>None\<close>. The theorems on the program never depend on it: it only instantiates the
  parameter \<open>MustCompile\<close> at concrete inputs.
\<close>

datatype re_atom = Bol | Eol | AnyChar | Lit char

fun re_parse :: "string \<Rightarrow> (re_atom \<times> bool) list option" where
  "re_parse [] = Some []"
| "re_parse (c # cs) =
     (if c \<in> set [CHR ''*'', CHR ''+'', CHR ''?'', CHR ''('', CHR '')'', CHR ''['', CHR '']'',
                   CHR ''{'', CHR ''}'', CHR ''|'', CHR 0x5C] \<or> 128 \<le> byte c
      then None
      else (let a = (if c = CHR ''^'' then Bol else if c = CHR ''$'' then Eol
                     else if c = CHR ''.'' then AnyChar else Lit c)
            in case cs of
                 [] \<Rightarrow> Some [(a, False)]
               | d # ds \<Rightarrow>
                   (if d = CHR ''*''
                    then (if a = Bol \<or> a = Eol then None
                          else map_option ((#) (a, True)) (re_parse ds))
                    else map_option ((#) (a, False)) (re_parse cs))))"

fun atom_ok :: "re_atom \<Rightarrow> char \<Rightarrow> bool" where
  "atom_ok AnyChar c = (c \<noteq> CHR 0x0A)"
| "atom_ok (Lit d) c = (c = d)"
| "atom_ok Bol c = False"
| "atom_ok Eol c = False"

text \<open>
  \<open>re_match_here\<close>: some prefix of the subject matches the items; the flag tells
  whether the position is the start of the whole subject.
\<close>

fun re_match_here :: "(re_atom \<times> bool) list \<Rightarrow> bool \<Rightarrow> string \<Rightarrow> bool" where
  "re_match_here [] at_start s = True"
| "re_match_here ((Bol, starred) # items) at_start s =
     (at_start \<and> re_match_here items at_start s)"
| "re_match_here ((Eol, starred) # items) at_start s =
     (s = [] \<and> re_match_here items at_start s)"
| "re_match_here ((a, False) # items) at_start [] = False"
| "re_match_here ((a, False) # items) at_start (c # cs) =
     (atom_ok a c \<and> re_match_here items False cs)"
| "re_match_here ((a, True) # items) at_start [] = re_match_here items at_start []"
| "re_match_here ((a, True) # items) at_start (c # cs) =
     (re_match_here items at_start (c # cs)
      \<or> (atom_ok a c \<and> re_match_here ((a, True) # items) False cs))"

fun re_search :: "(re_atom \<times> bool) list \<Rightarrow> bool \<Rightarrow> string \<Rightarrow> bool" where
  "re_search items at_start [] = re_match_here items at_start []"
| "re_search items at_start (c # cs) =
     (re_match_here items at_start (c # cs) \<or> re_search items False cs)"

definition exampleMustCompile :: "string \<Rightarrow> Regexp option" where
  "exampleMustCompile p = map_option (\<lambda>items. Regexp (re_search items True)) (re_parse p)"

section \<open>The database handle\<close>

text \<open>
  The program reaches the database through \<^verbatim>\<open>hey.Way\<close> (\<^verbatim>\<open>Query\<close>, \<^verbatim>\<open>Scan\<close>), a
  library outside the repository. A handle is modelled by what it answers to a statement:
  an error (of the query, or of a \<^verbatim>\<open>rows.Scan\<close> in the callback, which the callers
  treat alike), or the rows as \<^verbatim>\<open>rows.Scan\<close> delivers them to the destinations the
  source names. A statement is the text and the arguments given to \<^verbatim>\<open>hey.NewSQL\<close>.
  Every operation below returns, next to its result, the statements it has issued, in
  order.
\<close>

datatype error = Error string





section \<open>Dialect adapters\<close>

subsection \<open>MySQL\<close>



subsection \<open>PostgreSQL\<close>






subsection \<open>SQLite\<close>





subsection \<open>PostgreSQL: the table definition\<close>


text \<open>
  The compiled pattern \<^verbatim>\<open>pgsqlSeq\<close>, \<^verbatim>\<open>^nextval\('([A-Za-z0-9_]+)'::regclass\)$\<close>. It is
  anchored at both ends, so \<^verbatim>\<open>FindAllStringSubmatch\<close> finds at most one match: the whole
  string and the group between the two quotes, which is not empty.
\<close>

definition pgsqlSeq_word :: "char \<Rightarrow> bool" where
  "pgsqlSeq_word c =
     (is_upper_AZ c \<or> is_lower_az c
      \<or> (byte CHR ''0'' \<le> byte c \<and> byte c \<le> byte CHR ''9'') \<or> c = CHR ''_'')"

definition pgsqlSeq_FindAllStringSubmatch :: "string \<Rightarrow> string list list" where
  "pgsqlSeq_FindAllStringSubmatch s =
     (let opening = ''nextval('' @ [CHR 0x27];
          closing = [CHR 0x27] @ ''::regclass)'';
          group1 = take (length s - length opening - length closing) (drop (length opening) s)
      in if length opening + length closing < length s \<and> HasPrefix s opening
            \<and> HasSuffix s closing \<and> list_all pgsqlSeq_word group1
         then [[s, group1]] else [])"




section \<open>Comment backfill\<close>

text \<open>
  The loop of \<^verbatim>\<open>App.Run\<close> over the tables that \<^verbatim>\<open>GetAllTables\<close> returned. For each
  table: the block \<^verbatim>\<open>replace empty comment\<close>, then the block that collects the column
  names seen for the first time (\<^verbatim>\<open>allColumns\<close>, a map with \<^verbatim>\<open>nil\<close> values only, is the
  set of its keys).
\<close>

fun Run_replace_columns :: "(string \<times> string) list \<Rightarrow> Column list \<Rightarrow> Column list" where
  "Run_replace_columns vaColumns [] = []"
| "Run_replace_columns vaColumns (column # columns) =
     (case map_of vaColumns (Column column) of
        None \<Rightarrow> column
      | Some vb \<Rightarrow>
          (if vb \<noteq> []
           then (if Column.Comment column = [] \<or> Column.Comment column = Column column
                 then column\<lparr>Column.Comment := vb\<rparr> else column)
           else column))
     # Run_replace_columns vaColumns columns"

definition Run_replace_comment :: "Config \<Rightarrow> Table \<Rightarrow> Table" where
  "Run_replace_comment cfg table =
     (case map_of (Comments cfg) (Table.Table table) of
        None \<Rightarrow> table
      | Some va \<Rightarrow>
          (let table1 =
                 (if ConfigComment.Comment va \<noteq> []
                  then (if Table.Comment table = [] \<or> Table.Comment table = Table.Table table
                        then table\<lparr>Table.Comment := ConfigComment.Comment va\<rparr> else table)
                  else table)
           in if 0 < length (ConfigComment.Columns va)
              then table1\<lparr>Table.Columns :=
                            Run_replace_columns (ConfigComment.Columns va) (Table.Columns table1)\<rparr>
              else table1))"

fun Run_all_columns ::
  "Column list \<Rightarrow> string set \<Rightarrow> string list \<Rightarrow> string set \<times> string list" where
  "Run_all_columns [] allColumns allTableColumns = (allColumns, allTableColumns)"
| "Run_all_columns (column # columns) allColumns allTableColumns =
     (if Column column \<in> allColumns
      then Run_all_columns columns allColumns allTableColumns
      else Run_all_columns columns (insert (Column column) allColumns)
             (allTableColumns @ [Column column]))"

record Template =
  Tables :: "Table list"
  AllTableColumns :: "string list"

fun Run_loop ::
  "Config \<Rightarrow> Table list \<Rightarrow> string set \<Rightarrow> string list \<Rightarrow> Table list \<times> string list" where
  "Run_loop cfg [] allColumns allTableColumns = ([], allTableColumns)"
| "Run_loop cfg (table # tables) allColumns allTableColumns =
     (let table' = Run_replace_comment cfg table in
      case Run_all_columns (Table.Columns table') allColumns allTableColumns of
        (allColumns', allTableColumns') \<Rightarrow>
          (case Run_loop cfg tables allColumns' allTableColumns' of
             (tables', result) \<Rightarrow> (table' # tables', result)))"

definition Run_template :: "Config \<Rightarrow> Table list \<Rightarrow> Template" where
  "Run_template cfg tables =
     (case Run_loop cfg tables {} [] of
        (tables', allTableColumns) \<Rightarrow>
          \<lparr>Tables = tables', AllTableColumns = allTableColumns\<rparr>)"

section \<open>Example inputs\<close>







text \<open>A configuration with fallback comments for the table \<^verbatim>\<open>users\<close>.\<close>

definition example_comments :: Config where
  "example_comments =
     Config_zero\<lparr>Comments :=
       [(''users'', \<lparr>ConfigComment.Comment = ''other'',
                     ConfigComment.Columns = [(''id'', ''ID primary key''),
                                              (''email'', ''Email'')]\<rparr>)]\<rparr>"

definition example_users :: "string \<Rightarrow> Table" where
  "example_users comment =
     Table_zero\<lparr>Table.Table := ''users'', Table.Comment := comment,
       Table.Columns := [Column_zero\<lparr>Column := ''id'', Column.Comment := ''id''\<rparr>,
                         Column_zero\<lparr>Column := ''email'', Column.Comment := ''login address''\<rparr>,
                         Column_zero\<lparr>Column := ''age''\<rparr>]\<rparr>"

section \<open>Properties of the identifier transformer\<close>

lemma Pascal_loop_append: "Pascal_loop xs b (pre @ tmp) = pre @ Pascal_loop xs b tmp"
  by (induction xs arbitrary: b tmp) simp_all

lemma Pascal_loop_tmp: "Pascal_loop xs b tmp = tmp @ Pascal_loop xs b []"
  using Pascal_loop_append [of xs b tmp "[]"] by simp

lemma Underline_loop_append:
  "Underline_loop xs i (pre @ tmp) = pre @ Underline_loop xs i tmp"
  by (induction xs arbitrary: i tmp) simp_all

lemma Underline_loop_tmp: "Underline_loop xs i tmp = tmp @ Underline_loop xs i []"
  using Underline_loop_append [of xs i tmp "[]"] by simp

lemma upper_to_lower:
  assumes "is_upper_AZ c"
  shows "is_lower_az (byte_add c 32)" and "byte_sub (byte_add c 32) 32 = c"
    and "byte_add c 32 \<noteq> CHR ''_''"
proof -
  from assms have r: "65 \<le> byte c" "byte c \<le> 90"
    by (simp_all add: is_upper_AZ_def byte_def)
  then have b: "byte (byte_add c 32) = byte c + 32"
    by (simp add: byte_add_def byte_def)
  from r b show "is_lower_az (byte_add c 32)"
    by (simp add: is_lower_az_def byte_def)
  from r b have "byte_sub (byte_add c 32) 32 = char_of (byte c)"
    by (simp add: byte_sub_def)
  then show "byte_sub (byte_add c 32) 32 = c"
    by (simp add: byte_def)
  have "byte CHR ''_'' = 95"
    by (simp add: byte_def)
  with r b show "byte_add c 32 \<noteq> CHR ''_''"
    by auto
qed

lemma Pascal_Underline_loop:
  "CHR ''_'' \<notin> set xs \<Longrightarrow> 0 < i \<Longrightarrow>
     Pascal_loop (Underline_loop xs i []) False [] = xs"
proof (induction xs arbitrary: i)
  case Nil
  then show ?case by simp
next
  case (Cons c cs)
  then have rest: "Pascal_loop (Underline_loop cs (i + 1) []) False [] = cs"
    by simp
  show ?case
  proof (cases "is_upper_AZ c")
    case True
    have "Underline_loop (c # cs) i [] =
            CHR ''_'' # byte_add c 32 # Underline_loop cs (i + 1) []"
      using True Cons.prems(2) Underline_loop_tmp [of cs "i + 1" "[CHR ''_'', byte_add c 32]"]
      by simp
    then have "Pascal_loop (Underline_loop (c # cs) i []) False [] =
            Pascal_loop (Underline_loop cs (i + 1) []) False [c]"
      using upper_to_lower [OF True] by simp
    then show ?thesis
      using rest Pascal_loop_tmp [of _ False "[c]"] by simp
  next
    case False
    have "Underline_loop (c # cs) i [] = c # Underline_loop cs (i + 1) []"
      using False Underline_loop_tmp [of cs "i + 1" "[c]"] by simp
    then have "Pascal_loop (Underline_loop (c # cs) i []) False [] =
            Pascal_loop (Underline_loop cs (i + 1) []) False [c]"
      using Cons.prems(1) by auto
    then show ?thesis
      using rest Pascal_loop_tmp [of _ False "[c]"] by simp
  qed
qed

text \<open>
  Claim C8. The test vectors of the specification: Pascal of \<^verbatim>\<open>user_name\<close> is
  \<^verbatim>\<open>UserName\<close>, Camel of \<^verbatim>\<open>user_name\<close> is \<^verbatim>\<open>userName\<close> (and returns, without a
  panic), Underline of \<^verbatim>\<open>UserName\<close> is \<^verbatim>\<open>user_name\<close>, and Pascal of the empty
  string is the empty string.
\<close>

theorem identifier_test_vectors:
  "Pascal ''user_name'' = ''UserName''
   \<and> Camel unicodeLower ''user_name'' = Some ''userName''
   \<and> Underline ''UserName'' = ''user_name''
   \<and> Pascal '''' = ''''"
  by (simp add: Pascal_def Camel_def Underline_def ToLower_def ascii_lower_def
      is_lower_az_def is_upper_AZ_def byte_def byte_add_def byte_sub_def char_of_eq_iff)

text \<open>
  Claim C7. An identifier that begins with an ASCII upper-case letter and contains no
  underscore is returned unchanged by Underline followed by Pascal.
\<close>

theorem Pascal_Underline_roundtrip:
  assumes "s \<noteq> []" and "is_upper_AZ (hd s)" and "CHR ''_'' \<notin> set s"
  shows "Pascal (Underline s) = s"
proof -
  from assms(1) obtain c cs where s: "s = c # cs"
    by (cases s) auto
  with assms have up: "is_upper_AZ c" and no: "CHR ''_'' \<notin> set cs"
    by auto
  have u: "Underline s = byte_add c 32 # Underline_loop cs 1 []"
    using s up Underline_loop_tmp [of cs 1 "[byte_add c 32]"]
    by (simp add: Underline_def)
  have "Pascal (Underline s) = Pascal_loop (Underline_loop cs 1 []) False [c]"
    using u upper_to_lower [OF up] by (simp add: Pascal_def)
  also have "\<dots> = c # Pascal_loop (Underline_loop cs 1 []) False []"
    using Pascal_loop_tmp [of _ False "[c]"] by simp
  also have "\<dots> = s"
    using Pascal_Underline_loop [OF no, of 1] s by simp
  finally show ?thesis .
qed

theorem Pascal_Underline_roundtrip_witness:
  "''HTTPServer'' \<noteq> [] \<and> is_upper_AZ (hd ''HTTPServer'')
   \<and> CHR ''_'' \<notin> set ''HTTPServer''
   \<and> Underline ''HTTPServer'' = ''h_t_t_p_server''
   \<and> Pascal (Underline ''HTTPServer'') = ''HTTPServer''"
  using Pascal_Underline_roundtrip [of "''HTTPServer''"]
  by (simp add: Underline_def is_upper_AZ_def byte_def byte_add_def char_of_eq_iff)

section \<open>Properties of the type mapper\<close>

lemma byte_inj: "(byte c = byte d) = (c = d)"
  by (simp add: byte_def)

lemma ascii_lower_eq:
  assumes "is_lower_az d"
  shows "(ascii_lower c = d) = (c = d \<or> c = byte_sub d 32)"
proof -
  from assms have d: "97 \<le> byte d" "byte d \<le> 122"
    by (simp_all add: is_lower_az_def byte_def)
  then have "(byte d + 256 - 32) mod 256 = byte d - 32"
    by (simp add: mod_if)
  then have s: "byte (byte_sub d 32) = byte d - 32"
    using d by (simp add: byte_sub_def byte_def)
  show ?thesis
  proof (cases "is_upper_AZ c")
    case True
    then have c: "65 \<le> byte c" "byte c \<le> 90"
      by (simp_all add: is_upper_AZ_def byte_def)
    then have a: "byte (byte_add c 32) = byte c + 32"
      by (simp add: byte_add_def byte_def)
    have "(byte_add c 32 = d) = (byte c + 32 = byte d)"
      using a byte_inj [of "byte_add c 32" d] by simp
    also have "\<dots> = (byte c = byte (byte_sub d 32))"
      using s d by auto
    also have "\<dots> = (c = byte_sub d 32)"
      by (rule byte_inj)
    finally have "(byte_add c 32 = d) = (c = byte_sub d 32)" .
    moreover have "c \<noteq> d"
      using c d by auto
    ultimately show ?thesis
      using True by (simp add: ascii_lower_def)
  next
    case False
    then have "c \<noteq> byte_sub d 32"
      using s d by (auto simp: is_upper_AZ_def byte_def)
    then show ?thesis
      using False by (simp add: ascii_lower_def)
  qed
qed

lemma ascii_lower_n: "(ascii_lower c = CHR ''n'') = (c = CHR ''n'' \<or> c = CHR ''N'')"
proof -
  have "byte_sub CHR ''n'' 32 = CHR ''N''"
    by (simp add: byte_sub_def byte_def char_of_eq_iff)
  moreover have "is_lower_az CHR ''n''"
    by (simp add: is_lower_az_def byte_def)
  ultimately show ?thesis
    using ascii_lower_eq [of "CHR ''n''" c] by simp
qed

lemma ascii_lower_o: "(ascii_lower c = CHR ''o'') = (c = CHR ''o'' \<or> c = CHR ''O'')"
proof -
  have "byte_sub CHR ''o'' 32 = CHR ''O''"
    by (simp add: byte_sub_def byte_def char_of_eq_iff)
  moreover have "is_lower_az CHR ''o''"
    by (simp add: is_lower_az_def byte_def)
  ultimately show ?thesis
    using ascii_lower_eq [of "CHR ''o''" c] by simp
qed

lemma map_ascii_lower_no:
  "(map ascii_lower v = ''no'') = (v \<in> set [''no'', ''No'', ''nO'', ''NO''])"
proof (cases v)
  case Nil
  then show ?thesis by simp
next
  case (Cons a as)
  note v = this
  show ?thesis
  proof (cases as)
    case Nil
    with v show ?thesis by simp
  next
    case (Cons b bs)
    with v show ?thesis
      by (cases bs) (auto simp: ascii_lower_n ascii_lower_o)
  qed
qed

lemma ToLower_ascii:
  "list_all (\<lambda>c. byte c < 128) v \<Longrightarrow> ToLower unicodeLower v = map ascii_lower v"
  by (simp add: ToLower_def)

lemma goType_switch_range: "goType_switch k \<in> set semantic_types"
  by (simp add: goType_switch_def semantic_types_def)

lemma goType_switch_default:
  "k \<notin> set recognized_keywords \<Longrightarrow> goType_switch k = ''string''"
  by (simp add: goType_switch_def recognized_keywords_def)

lemma goType_switch_families:
  "goType_switch ''tinyint'' = ''int8''
   \<and> list_all (\<lambda>k. goType_switch k = ''int16'') [''smallint'', ''smallserial'']
   \<and> list_all (\<lambda>k. goType_switch k = ''int'') [''integer'', ''serial'', ''int'']
   \<and> list_all (\<lambda>k. goType_switch k = ''int64'') [''bigint'', ''bigserial'']
   \<and> list_all (\<lambda>k. goType_switch k = ''float64'')
        [''decimal'', ''numeric'', ''real'', ''double precision'', ''double'', ''float'']
   \<and> list_all (\<lambda>k. goType_switch k = ''string'')
        [''char'', ''character'', ''character varying'', ''text'', ''varchar'', ''enum'',
         ''mediumtext'', ''longtext'']
   \<and> list_all (\<lambda>k. goType_switch k = ''bool'') [''bool'', ''boolean'']
   \<and> list_all (\<lambda>k. goType_switch k = ''[]byte'')
        [''binary'', ''varbinary'', ''tinyblob'', ''mediumblob'', ''longblob'', ''blob'',
         ''bytea'']"
  by (simp add: goType_switch_def)

lemma goType_switch_no_star: "hd (goType_switch k) \<noteq> CHR ''*''"
  by (simp add: goType_switch_def)

lemma goType_wrap:
  "goType unicodeLower c =
     (if goType_nullable unicodeLower c
      then (if goType_switch (goType_datatype unicodeLower c) = ''[]byte'' then ''[]byte''
            else ''*'' @ goType_switch (goType_datatype unicodeLower c))
      else goType_switch (goType_datatype unicodeLower c))"
  by (simp add: goType_def Let_def)

lemma goType_datatype_DataType:
  "DataType c = Some d \<Longrightarrow> ToLower unicodeLower d \<noteq> [] \<Longrightarrow>
     goType_datatype unicodeLower c = ToLower unicodeLower d"
  by (simp add: goType_datatype_def Let_def split: option.split)

lemma goType_datatype_Type:
  "DataType c = None \<Longrightarrow> Type c = Some t \<Longrightarrow> t \<noteq> [] \<Longrightarrow>
     goType_datatype unicodeLower c = ToLower unicodeLower t"
  by (simp add: goType_datatype_def)

text \<open>
  Claim C4. The type keyword of a column is the lower-cased \<^verbatim>\<open>DataType\<close> (when that is
  not empty), else the lower-cased \<^verbatim>\<open>Type\<close>. The switch maps every keyword to one of
  int8, int16, int, int64, float64, string, bool and []byte, family by family as listed,
  and every keyword outside the families to string. The resolved type of a nullable
  column is that type with \<^verbatim>\<open>*\<close> in front, except []byte, which is never wrapped; the
  resolved type of a column that is not nullable is the type itself.
\<close>

theorem goType_semantic_type:
  "goType_switch k \<in> set semantic_types
   \<and> (k \<notin> set recognized_keywords \<longrightarrow> goType_switch k = ''string'')
   \<and> goType_switch ''tinyint'' = ''int8''
   \<and> list_all (\<lambda>k. goType_switch k = ''int16'') [''smallint'', ''smallserial'']
   \<and> list_all (\<lambda>k. goType_switch k = ''int'') [''integer'', ''serial'', ''int'']
   \<and> list_all (\<lambda>k. goType_switch k = ''int64'') [''bigint'', ''bigserial'']
   \<and> list_all (\<lambda>k. goType_switch k = ''float64'')
        [''decimal'', ''numeric'', ''real'', ''double precision'', ''double'', ''float'']
   \<and> list_all (\<lambda>k. goType_switch k = ''string'')
        [''char'', ''character'', ''character varying'', ''text'', ''varchar'', ''enum'',
         ''mediumtext'', ''longtext'']
   \<and> list_all (\<lambda>k. goType_switch k = ''bool'') [''bool'', ''boolean'']
   \<and> list_all (\<lambda>k. goType_switch k = ''[]byte'')
        [''binary'', ''varbinary'', ''tinyblob'', ''mediumblob'', ''longblob'', ''blob'',
         ''bytea'']
   \<and> (\<forall>d. DataType c = Some d \<and> ToLower unicodeLower d \<noteq> [] \<longrightarrow>
          goType_datatype unicodeLower c = ToLower unicodeLower d)
   \<and> (\<forall>t. DataType c = None \<and> Type c = Some t \<and> t \<noteq> [] \<longrightarrow>
          goType_datatype unicodeLower c = ToLower unicodeLower t)
   \<and> goType unicodeLower c =
        (if goType_nullable unicodeLower c
         then (if goType_switch (goType_datatype unicodeLower c) = ''[]byte'' then ''[]byte''
               else ''*'' @ goType_switch (goType_datatype unicodeLower c))
         else goType_switch (goType_datatype unicodeLower c))"
  using goType_switch_range [of k] goType_switch_default [of k] goType_switch_families
    goType_datatype_DataType [of c _ unicodeLower] goType_datatype_Type [of c _ unicodeLower]
    goType_wrap [of unicodeLower c]
  by blast

theorem goType_semantic_type_witness:
  "''mediumint'' \<notin> set recognized_keywords
   \<and> goType_switch ''mediumint'' = ''string''
   \<and> DataType (Column_zero\<lparr>DataType := Some ''BLOB'', IsNullable := Some ''YES''\<rparr>)
        = Some ''BLOB''
   \<and> ToLower (\<lambda>s. s) ''BLOB'' = ''blob''
   \<and> goType_nullable (\<lambda>s. s)
        (Column_zero\<lparr>DataType := Some ''BLOB'', IsNullable := Some ''YES''\<rparr>)
   \<and> goType (\<lambda>s. s) (Column_zero\<lparr>DataType := Some ''BLOB'', IsNullable := Some ''YES''\<rparr>)
        = ''[]byte''
   \<and> DataType (Column_zero\<lparr>Type := Some ''INTEGER'', IsNullable := Some ''no''\<rparr>) = None
   \<and> Type (Column_zero\<lparr>Type := Some ''INTEGER'', IsNullable := Some ''no''\<rparr>)
        = Some ''INTEGER''
   \<and> goType_datatype (\<lambda>s. s) (Column_zero\<lparr>Type := Some ''INTEGER'', IsNullable := Some ''no''\<rparr>)
        = ''integer''
   \<and> goType (\<lambda>s. s) (Column_zero\<lparr>Type := Some ''INTEGER'', IsNullable := Some ''no''\<rparr>)
        = ''int''
   \<and> goType (\<lambda>s. s) (Column_zero\<lparr>Type := Some ''INTEGER''\<rparr>) = ''*int''"
  using goType_semantic_type [of "''mediumint''"
      "Column_zero\<lparr>DataType := Some ''BLOB'', IsNullable := Some ''YES''\<rparr>" "\<lambda>s. s"]
    goType_semantic_type [of "''mediumint''"
      "Column_zero\<lparr>Type := Some ''INTEGER'', IsNullable := Some ''no''\<rparr>" "\<lambda>s. s"]
    goType_semantic_type [of "''mediumint''" "Column_zero\<lparr>Type := Some ''INTEGER''\<rparr>" "\<lambda>s. s"]
  by (simp add: Column_zero_def recognized_keywords_def goType_switch_def goType_nullable_def
      goType_datatype_def ToLower_def ascii_lower_def is_upper_AZ_def byte_def byte_add_def
      char_of_eq_iff)

text \<open>
  Claim C9. A column whose \<^verbatim>\<open>IsNullable\<close> is \<^verbatim>\<open>nil\<close>, or holds a value whose
  lower-casing is not \<^verbatim>\<open>no\<close>, is nullable: its resolved type is the mapped type with
  \<^verbatim>\<open>*\<close> in front, except []byte, which stays as it is. A value whose lower-casing is
  \<^verbatim>\<open>no\<close> gives the mapped type itself, which never starts with \<^verbatim>\<open>*\<close>. For a value of
  ASCII bytes the lower-casing is \<^verbatim>\<open>no\<close> exactly for no, No, nO and NO.
\<close>

theorem goType_nullable_unless_no:
  "(IsNullable c = None \<or> (\<exists>v. IsNullable c = Some v \<and> ToLower unicodeLower v \<noteq> ''no'')
      \<longrightarrow> goType unicodeLower c =
            (if goType_switch (goType_datatype unicodeLower c) = ''[]byte'' then ''[]byte''
             else ''*'' @ goType_switch (goType_datatype unicodeLower c)))
   \<and> ((\<exists>v. IsNullable c = Some v \<and> ToLower unicodeLower v = ''no'')
      \<longrightarrow> goType unicodeLower c = goType_switch (goType_datatype unicodeLower c)
          \<and> hd (goType unicodeLower c) \<noteq> CHR ''*'')
   \<and> (list_all (\<lambda>b. byte b < 128) w
      \<longrightarrow> (ToLower unicodeLower w = ''no'') = (w \<in> set [''no'', ''No'', ''nO'', ''NO'']))"
proof -
  have "goType_nullable unicodeLower c"
    if "IsNullable c = None \<or> (\<exists>v. IsNullable c = Some v \<and> ToLower unicodeLower v \<noteq> ''no'')"
    using that by (auto simp: goType_nullable_def)
  moreover have "\<not> goType_nullable unicodeLower c"
    if "\<exists>v. IsNullable c = Some v \<and> ToLower unicodeLower v = ''no''"
    using that by (auto simp: goType_nullable_def)
  moreover have "(ToLower unicodeLower w = ''no'') = (w \<in> set [''no'', ''No'', ''nO'', ''NO''])"
    if "list_all (\<lambda>b. byte b < 128) w"
    using that ToLower_ascii [of w unicodeLower] map_ascii_lower_no [of w] by simp
  ultimately show ?thesis
    using goType_wrap [of unicodeLower c]
      goType_switch_no_star [of "goType_datatype unicodeLower c"]
    by (simp del: set_simps)
qed

theorem goType_nullable_unless_no_witness:
  "IsNullable (Column_zero\<lparr>DataType := Some ''bigint''\<rparr>) = None
   \<and> goType (\<lambda>s. s) (Column_zero\<lparr>DataType := Some ''bigint''\<rparr>) = ''*int64''
   \<and> ToLower (\<lambda>s. s) ''YES'' \<noteq> ''no''
   \<and> goType (\<lambda>s. s) (Column_zero\<lparr>DataType := Some ''bigint'', IsNullable := Some ''YES''\<rparr>)
        = ''*int64''
   \<and> ToLower (\<lambda>s. s) ''No'' = ''no''
   \<and> goType (\<lambda>s. s) (Column_zero\<lparr>DataType := Some ''bigint'', IsNullable := Some ''No''\<rparr>)
        = ''int64''
   \<and> goType (\<lambda>s. s) (Column_zero\<lparr>DataType := Some ''bytea'', IsNullable := Some ''YES''\<rparr>)
        = ''[]byte''
   \<and> list_all (\<lambda>b. byte b < 128) ''nO''
   \<and> ToLower (\<lambda>s. s) ''nO'' = ''no''"
  using goType_nullable_unless_no [of "Column_zero\<lparr>DataType := Some ''bigint''\<rparr>" "\<lambda>s. s" "''nO''"]
    goType_nullable_unless_no
      [of "Column_zero\<lparr>DataType := Some ''bigint'', IsNullable := Some ''YES''\<rparr>" "\<lambda>s. s" "''nO''"]
    goType_nullable_unless_no
      [of "Column_zero\<lparr>DataType := Some ''bigint'', IsNullable := Some ''No''\<rparr>" "\<lambda>s. s" "''nO''"]
    goType_nullable_unless_no
      [of "Column_zero\<lparr>DataType := Some ''bytea'', IsNullable := Some ''YES''\<rparr>" "\<lambda>s. s" "''nO''"]
  by (simp add: Column_zero_def goType_def goType_nullable_def goType_datatype_def
      goType_switch_def ToLower_def ascii_lower_def is_upper_AZ_def byte_def byte_add_def
      char_of_eq_iff)

section \<open>Properties of the table filter\<close>





lemma isTableDisabled_map:
  "DisableTableMap cfg = Some m \<Longrightarrow> isTableDisabled cfg table = (table \<in> m)"
  by (simp add: isTableDisabled_def)

lemma isTableDisabled_loop_ex:
  "isTableDisabled_loop rs table = list_ex (\<lambda>disable. MatchString disable table) rs"
  by (induction rs) simp_all

lemma isTableDisabled_nil_map:
  "DisableTableMap cfg = None \<Longrightarrow>
     isTableDisabled cfg table =
       list_ex (\<lambda>disable. MatchString disable table) (DisableTableRegexp cfg)"
  by (simp add: isTableDisabled_def isTableDisabled_loop_ex)

text \<open>
  Claim C1, at the deny-list of \<^verbatim>\<open>exampleConfig\<close>: two patterns and one literal, and no
  allow-list. \<^verbatim>\<open>initConfigDisableTable\<close> returns; the map holds the literal and the first
  compiled pattern matches \<^verbatim>\<open>disable_users\<close>. Yet \<^verbatim>\<open>isTableDisabled\<close> is false for
  \<^verbatim>\<open>disable_users\<close>, and the filter keeps that table: with a literal in the deny-list the
  patterns are never consulted.
\<close>

theorem isTableDisabled_literal_hides_patterns:
  "(case initConfigDisableTable exampleMustCompile
           (Config_zero\<lparr>DisableTable :=
              [''^disable_.*$'', ''^example_.*$'', ''system_table_name'']\<rparr>) of
      None \<Rightarrow> False
    | Some cfg \<Rightarrow>
        OnlyTable cfg = []
        \<and> DisableTableMap cfg = Some {''system_table_name''}
        \<and> map (\<lambda>disable. MatchString disable ''disable_users'') (DisableTableRegexp cfg)
            = [True, False]
        \<and> isTableDisabled cfg ''disable_users'' = False
        \<and> map Table.Table
             (GetAllTables_filter cfg
                [Table_zero\<lparr>Table.Table := ''disable_users''\<rparr>,
                 Table_zero\<lparr>Table.Table := ''system_table_name''\<rparr>,
                 Table_zero\<lparr>Table.Table := ''users''\<rparr>])
            = [''disable_users'', ''users''])"
  by (simp add: initConfigDisableTable_def Config_zero_def Table_zero_def TrimSpace_def
      asciiSpace_def space2_def space3_def HasPrefix_def HasSuffix_def exampleMustCompile_def
      byte_def isTableDisabled_def GetAllTables_filter_def Let_def)




section \<open>Properties of the dialect adapters\<close>




subsection \<open>SQLite: the auto-increment column\<close>










subsection \<open>PostgreSQL: sequences\<close>





lemma pgsqlSeq_FindAllStringSubmatch_shape:
  "pgsqlSeq_FindAllStringSubmatch s = [] \<or>
   (\<exists>g. pgsqlSeq_FindAllStringSubmatch s = [[s, g]] \<and> g \<noteq> [])"
  by (auto simp: pgsqlSeq_FindAllStringSubmatch_def Let_def)







section \<open>Properties of the comment backfill\<close>

lemma Run_loop_tables:
  "fst (Run_loop cfg tables allColumns allTableColumns) = map (Run_replace_comment cfg) tables"
proof (induction tables arbitrary: allColumns allTableColumns)
  case Nil
  then show ?case by simp
next
  case (Cons t ts)
  obtain a b where
    ab: "Run_all_columns (Table.Columns (Run_replace_comment cfg t)) allColumns allTableColumns
           = (a, b)"
    by fastforce
  obtain ts' r where l: "Run_loop cfg ts a b = (ts', r)"
    by fastforce
  from Cons.IH [of a b] l have "ts' = map (Run_replace_comment cfg) ts"
    by simp
  with ab l show ?case
    by (simp add: Let_def)
qed

lemma Run_template_tables:
  "Tables (Run_template cfg tables) = map (Run_replace_comment cfg) tables"
proof -
  obtain ts' r where l: "Run_loop cfg tables {} [] = (ts', r)"
    by fastforce
  with Run_loop_tables [of cfg tables "{}" "[]"] show ?thesis
    by (simp add: Run_template_def)
qed

lemma Run_replace_columns_Nil: "Run_replace_columns [] columns = columns"
  by (induction columns) simp_all

lemma Run_replace_comment_Columns:
  "Table.Columns (Run_replace_comment cfg t) =
     (case map_of (Comments cfg) (Table.Table t) of
        None \<Rightarrow> Table.Columns t
      | Some va \<Rightarrow> Run_replace_columns (ConfigComment.Columns va) (Table.Columns t))"
  by (simp add: Run_replace_comment_def Let_def Run_replace_columns_Nil split: option.split)

lemma Run_replace_columns_frame:
  "list_all2
     (\<lambda>c c'. (Column.Comment c \<noteq> [] \<and> Column.Comment c \<noteq> Column c \<longrightarrow> c' = c)
        \<and> c' = c\<lparr>Column.Comment := Column.Comment c'\<rparr>
        \<and> (\<forall>vb. map_of vaColumns (Column c) = Some vb \<and> vb \<noteq> []
                  \<and> (Column.Comment c = [] \<or> Column.Comment c = Column c) \<longrightarrow>
                Column.Comment c' = vb))
     columns (Run_replace_columns vaColumns columns)"
  by (induction columns) (auto split: option.splits)

lemma list_all2_frame_refl:
  "list_all2
     (\<lambda>c c'. (Column.Comment c \<noteq> [] \<and> Column.Comment c \<noteq> Column c \<longrightarrow> c' = c)
        \<and> c' = c\<lparr>Column.Comment := Column.Comment c'\<rparr>)
     columns columns"
  by (simp add: list_all2_same)

text \<open>
  Claim C5. The loop of \<^verbatim>\<open>App.Run\<close> replaces every table by its backfilled form. A
  table comment that is neither empty nor the table's own name is left as it is; so is
  every column comment that is neither empty nor the column's own name. Nothing but
  comments changes: the columns stay in place and keep all other fields, and so does the
  table. And the fallback does apply where it may: a non-empty table-level fallback
  replaces a comment that is empty or the table's name.
\<close>

theorem Run_replace_comment_keeps_real_comments:
  "Tables (Run_template cfg tables) = map (Run_replace_comment cfg) tables
   \<and> (Table.Comment t \<noteq> [] \<and> Table.Comment t \<noteq> Table.Table t \<longrightarrow>
        Table.Comment (Run_replace_comment cfg t) = Table.Comment t)
   \<and> list_all2
        (\<lambda>c c'. (Column.Comment c \<noteq> [] \<and> Column.Comment c \<noteq> Column c \<longrightarrow> c' = c)
           \<and> c' = c\<lparr>Column.Comment := Column.Comment c'\<rparr>)
        (Table.Columns t) (Table.Columns (Run_replace_comment cfg t))
   \<and> Run_replace_comment cfg t
       = t\<lparr>Table.Comment := Table.Comment (Run_replace_comment cfg t),
           Table.Columns := Table.Columns (Run_replace_comment cfg t)\<rparr>
   \<and> (\<forall>va. map_of (Comments cfg) (Table.Table t) = Some va
             \<and> ConfigComment.Comment va \<noteq> []
             \<and> (Table.Comment t = [] \<or> Table.Comment t = Table.Table t) \<longrightarrow>
           Table.Comment (Run_replace_comment cfg t) = ConfigComment.Comment va)
   \<and> (\<forall>va. map_of (Comments cfg) (Table.Table t) = Some va \<longrightarrow>
           list_all2
             (\<lambda>c c'. \<forall>vb. map_of (ConfigComment.Columns va) (Column c) = Some vb \<and> vb \<noteq> []
                        \<and> (Column.Comment c = [] \<or> Column.Comment c = Column c) \<longrightarrow>
                      Column.Comment c' = vb)
             (Table.Columns t) (Table.Columns (Run_replace_comment cfg t)))"
proof -
  have frame: "list_all2
        (\<lambda>c c'. (Column.Comment c \<noteq> [] \<and> Column.Comment c \<noteq> Column c \<longrightarrow> c' = c)
           \<and> c' = c\<lparr>Column.Comment := Column.Comment c'\<rparr>)
        (Table.Columns t) (Table.Columns (Run_replace_comment cfg t))"
  proof (cases "map_of (Comments cfg) (Table.Table t)")
    case None
    have "Table.Columns (Run_replace_comment cfg t) = Table.Columns t"
      using None by (simp add: Run_replace_comment_Columns)
    then show ?thesis
      using list_all2_frame_refl [of "Table.Columns t"] by (simp only:)
  next
    case (Some va)
    have "Table.Columns (Run_replace_comment cfg t)
            = Run_replace_columns (ConfigComment.Columns va) (Table.Columns t)"
      using Some by (simp add: Run_replace_comment_Columns)
    moreover have "list_all2
        (\<lambda>c c'. (Column.Comment c \<noteq> [] \<and> Column.Comment c \<noteq> Column c \<longrightarrow> c' = c)
           \<and> c' = c\<lparr>Column.Comment := Column.Comment c'\<rparr>)
        (Table.Columns t) (Run_replace_columns (ConfigComment.Columns va) (Table.Columns t))"
      by (rule list_all2_mono [OF Run_replace_columns_frame]) blast
    ultimately show ?thesis
      by (simp only:)
  qed
  have apply_columns: "list_all2
             (\<lambda>c c'. \<forall>vb. map_of (ConfigComment.Columns va) (Column c) = Some vb \<and> vb \<noteq> []
                        \<and> (Column.Comment c = [] \<or> Column.Comment c = Column c) \<longrightarrow>
                      Column.Comment c' = vb)
             (Table.Columns t) (Table.Columns (Run_replace_comment cfg t))"
    if va: "map_of (Comments cfg) (Table.Table t) = Some va" for va
  proof -
    have "Table.Columns (Run_replace_comment cfg t)
            = Run_replace_columns (ConfigComment.Columns va) (Table.Columns t)"
      using va by (simp add: Run_replace_comment_Columns)
    moreover have "list_all2
             (\<lambda>c c'. \<forall>vb. map_of (ConfigComment.Columns va) (Column c) = Some vb \<and> vb \<noteq> []
                        \<and> (Column.Comment c = [] \<or> Column.Comment c = Column c) \<longrightarrow>
                      Column.Comment c' = vb)
             (Table.Columns t) (Run_replace_columns (ConfigComment.Columns va) (Table.Columns t))"
      by (rule list_all2_mono [OF Run_replace_columns_frame]) blast
    ultimately show ?thesis
      by (simp only:)
  qed
  have table: "Table.Comment t \<noteq> [] \<and> Table.Comment t \<noteq> Table.Table t \<longrightarrow>
        Table.Comment (Run_replace_comment cfg t) = Table.Comment t"
    by (simp add: Run_replace_comment_def Let_def split: option.splits)
  have rest: "Run_replace_comment cfg t
       = t\<lparr>Table.Comment := Table.Comment (Run_replace_comment cfg t),
           Table.Columns := Table.Columns (Run_replace_comment cfg t)\<rparr>"
    by (simp add: Run_replace_comment_def Let_def split: option.splits)
  have apply_table: "Table.Comment (Run_replace_comment cfg t) = ConfigComment.Comment va"
    if "map_of (Comments cfg) (Table.Table t) = Some va" and "ConfigComment.Comment va \<noteq> []"
      and "Table.Comment t = [] \<or> Table.Comment t = Table.Table t" for va
    using that by (auto simp: Run_replace_comment_def Let_def)
  from Run_template_tables [of cfg tables] frame apply_columns table rest apply_table
  show ?thesis
    by blast
qed

theorem Run_replace_comment_keeps_real_comments_witness:
  "Table.Comment (example_users ''real comment'') \<noteq> []
   \<and> Table.Comment (example_users ''real comment'') \<noteq> Table.Table (example_users ''real comment'')
   \<and> map_of (Comments example_comments) ''users''
       = Some \<lparr>ConfigComment.Comment = ''other'',
               ConfigComment.Columns = [(''id'', ''ID primary key''), (''email'', ''Email'')]\<rparr>
   \<and> Table.Comment (Run_replace_comment example_comments (example_users ''real comment''))
       = ''real comment''
   \<and> Table.Comment (Run_replace_comment example_comments (example_users ''users'')) = ''other''
   \<and> map Column.Comment
        (Table.Columns (Run_replace_comment example_comments (example_users ''real comment'')))
       = [''ID primary key'', ''login address'', [] ]
   \<and> map Table.Comment
        (Tables (Run_template example_comments
                   [example_users ''real comment'', example_users ''users'', example_users []]))
       = [''real comment'', ''other'', ''other'']"
  using Run_replace_comment_keeps_real_comments
    [where cfg = example_comments and t = "example_users ''real comment''"
       and tables = "[example_users ''real comment'', example_users ''users'', example_users []]"]
    Run_replace_comment_keeps_real_comments
    [where cfg = example_comments and t = "example_users ''users''"
       and tables = "[example_users ''real comment'', example_users ''users'', example_users []]"]
  by (simp add: example_comments_def example_users_def Config_zero_def Table_zero_def
      Column_zero_def Run_replace_comment_def Let_def)

end
